theory Spec2Isabelle
  imports Main
begin

section \<open>What is embedded\<close>

text \<open>
  The sources hold two generations of the engine (\<^verbatim>\<open>mig.go\<close>), of the context and of the
  route group. The embedding is of the newer one, which the tests and the README use:
  \<^verbatim>\<open>Response\<close> (\<^verbatim>\<open>WriteHeader\<close>, \<^verbatim>\<open>Write\<close>, \<^verbatim>\<open>Status\<close>, \<^verbatim>\<open>Written\<close>), the \<^verbatim>\<open>Context\<close> with a
  \<^verbatim>\<open>Response\<close> field (\<^verbatim>\<open>Reset\<close>, \<^verbatim>\<open>Put\<close>, \<^verbatim>\<open>Get\<close>, \<^verbatim>\<open>QueryParam\<close>, \<^verbatim>\<open>HasQueryParam\<close>,
  \<^verbatim>\<open>BindJSON\<close>, \<^verbatim>\<open>Raw\<close>, \<^verbatim>\<open>SetRequestID\<close>, \<^verbatim>\<open>RequestID\<close>), the \<^verbatim>\<open>RouteGroup\<close> with a \<^verbatim>\<open>Prefix\<close>
  (\<^verbatim>\<open>Group\<close>, \<^verbatim>\<open>Use\<close>, \<^verbatim>\<open>HandleRaw\<close>, \<^verbatim>\<open>Handle\<close>), and the \<^verbatim>\<open>Mig\<close> whose \<^verbatim>\<open>HTTPError\<close> has a
  \<^verbatim>\<open>Stack\<close> (\<^verbatim>\<open>NewHTTPError\<close>, \<^verbatim>\<open>Execute\<close>, \<^verbatim>\<open>DefaultErrorHandler\<close>). Of the older generation
  only \<^verbatim>\<open>QueryParam\<close> and the recovery of \<^verbatim>\<open>Execute\<close> are embedded, each under a name of
  its own, to show where they differ. What the standard library does (\<^verbatim>\<open>errors\<close>,
  \<^verbatim>\<open>net/http\<close>, \<^verbatim>\<open>net/url\<close>, \<^verbatim>\<open>net/textproto\<close>, \<^verbatim>\<open>log/slog\<close>, \<^verbatim>\<open>sync.Pool\<close>) is modelled
  from its documented behaviour; \<^verbatim>\<open>encoding/json\<close> and \<^verbatim>\<open>runtime/debug\<close> enter as
  arguments.
\<close>

section \<open>Errors\<close>

text \<open>
  Go's \<^verbatim>\<open>error\<close> is an open interface. The embedding closes it over the shapes the
  framework distinguishes: the sentinel \<^verbatim>\<open>http.ErrAbortHandler\<close> (compared by identity,
  hence a constructor of its own), a leaf error that only carries its text
  (\<^verbatim>\<open>errors.New\<close>, \<^verbatim>\<open>fmt.Errorf\<close> without \<^verbatim>\<open>%w\<close>, runtime errors), an error with one
  wrapped cause (\<^verbatim>\<open>fmt.Errorf("...%w", e)\<close>), an error with several wrapped causes
  (\<^verbatim>\<open>errors.Join\<close>), and the framework's own \<^verbatim>\<open>*HTTPError\<close>, whose \<^verbatim>\<open>Unwrap\<close> returns
  \<^verbatim>\<open>Internal\<close>. A nil \<^verbatim>\<open>error\<close> is \<open>None\<close> of \<open>error option\<close>.
\<close>

datatype error =
    ErrAbortHandler
  | ErrorString string
  | WrapError string error
  | JoinError "error list"
  | HTTPErr HTTPError
and HTTPError =
    HTTPError (Code: int) (Message: string) (Internal: "error option") (Stack: string)

text \<open>
  \<^verbatim>\<open>errors.Is(err, http.ErrAbortHandler)\<close>: the sentinel is found when it is \<open>err\<close> itself
  or anywhere below it along \<^verbatim>\<open>Unwrap\<close> (depth first through a joined error).
\<close>

fun errors_Is_abort :: "error \<Rightarrow> bool" where
  "errors_Is_abort ErrAbortHandler = True"
| "errors_Is_abort (ErrorString s) = False"
| "errors_Is_abort (WrapError s e) = errors_Is_abort e"
| "errors_Is_abort (JoinError es) = list_ex errors_Is_abort es"
| "errors_Is_abort (HTTPErr (HTTPError c m i t)) =
     (case i of None \<Rightarrow> False | Some e \<Rightarrow> errors_Is_abort e)"

text \<open>
  \<^verbatim>\<open>var e *HTTPError; errors.As(err, &e)\<close>: the first \<^verbatim>\<open>*HTTPError\<close> met on the same
  walk, \<open>err\<close> itself first. The walk does not look below an \<^verbatim>\<open>*HTTPError\<close> it has found.
\<close>

fun errors_As :: "error \<Rightarrow> HTTPError option"
  and errors_As_first :: "error list \<Rightarrow> HTTPError option" where
  "errors_As ErrAbortHandler = None"
| "errors_As (ErrorString s) = None"
| "errors_As (WrapError s e) = errors_As e"
| "errors_As (JoinError es) = errors_As_first es"
| "errors_As (HTTPErr h) = Some h"
| "errors_As_first [] = None"
| "errors_As_first (e # es) =
     (case errors_As e of Some h \<Rightarrow> Some h | None \<Rightarrow> errors_As_first es)"

text \<open>
  \<^verbatim>\<open>http.StatusText\<close> is the standard library's table of reason phrases; a code outside
  the table has the empty text.
\<close>

definition StatusText :: "int \<Rightarrow> string" where
  "StatusText code =
    (case map_of
      [(100, ''Continue''), (101, ''Switching Protocols''), (102, ''Processing''),
       (103, ''Early Hints''),
       (200, ''OK''), (201, ''Created''), (202, ''Accepted''),
       (203, ''Non-Authoritative Information''), (204, ''No Content''),
       (205, ''Reset Content''), (206, ''Partial Content''), (207, ''Multi-Status''),
       (208, ''Already Reported''), (226, ''IM Used''),
       (300, ''Multiple Choices''), (301, ''Moved Permanently''), (302, ''Found''),
       (303, ''See Other''), (304, ''Not Modified''), (305, ''Use Proxy''),
       (307, ''Temporary Redirect''), (308, ''Permanent Redirect''),
       (400, ''Bad Request''), (401, ''Unauthorized''), (402, ''Payment Required''),
       (403, ''Forbidden''), (404, ''Not Found''), (405, ''Method Not Allowed''),
       (406, ''Not Acceptable''), (407, ''Proxy Authentication Required''),
       (408, ''Request Timeout''), (409, ''Conflict''), (410, ''Gone''),
       (411, ''Length Required''), (412, ''Precondition Failed''),
       (413, ''Request Entity Too Large''), (414, ''Request URI Too Long''),
       (415, ''Unsupported Media Type''), (416, ''Requested Range Not Satisfiable''),
       (417, ''Expectation Failed''), (418, [CHR ''I'', CHR 0x27] @ ''m a teapot''),
       (421, ''Misdirected Request''), (422, ''Unprocessable Entity''), (423, ''Locked''),
       (424, ''Failed Dependency''), (425, ''Too Early''), (426, ''Upgrade Required''),
       (428, ''Precondition Required''), (429, ''Too Many Requests''),
       (431, ''Request Header Fields Too Large''),
       (451, ''Unavailable For Legal Reasons''),
       (500, ''Internal Server Error''), (501, ''Not Implemented''), (502, ''Bad Gateway''),
       (503, ''Service Unavailable''), (504, ''Gateway Timeout''),
       (505, ''HTTP Version Not Supported''), (506, ''Variant Also Negotiates''),
       (507, ''Insufficient Storage''), (508, ''Loop Detected''), (510, ''Not Extended''),
       (511, ''Network Authentication Required'')] code
     of None \<Rightarrow> '''' | Some s \<Rightarrow> s)"

definition NewHTTPError :: "int \<Rightarrow> HTTPError" where
  "NewHTTPError code = HTTPError code (StatusText code) None ''''"

text \<open>
  A panic carries any value. \<^verbatim>\<open>Execute\<close> only asks whether the value is an \<^verbatim>\<open>error\<close>; a
  value that is not is kept as the text \<^verbatim>\<open>%v\<close> prints for it.
\<close>

datatype panic_value = PanicError error | PanicValue string

datatype 'a outcome = Returned 'a | Panicked panic_value

section \<open>Headers\<close>

text \<open>
  \<^verbatim>\<open>http.Header\<close> is \<^verbatim>\<open>map[string][]string\<close>; \<^verbatim>\<open>Get\<close> and \<^verbatim>\<open>Set\<close> first bring the key into
  its canonical form (\<^verbatim>\<open>textproto.CanonicalMIMEHeaderKey\<close>): a key of token bytes gets an
  upper-case letter at the start and after each hyphen and lower-case letters elsewhere,
  any other key is left as it is.
\<close>

type_synonym Header = "string \<Rightarrow> string list option"

definition isLower :: "char \<Rightarrow> bool" where
  "isLower c = (97 \<le> (of_char c :: nat) \<and> (of_char c :: nat) \<le> 122)"

definition isUpper :: "char \<Rightarrow> bool" where
  "isUpper c = (65 \<le> (of_char c :: nat) \<and> (of_char c :: nat) \<le> 90)"

definition isDigit :: "char \<Rightarrow> bool" where
  "isDigit c = (48 \<le> (of_char c :: nat) \<and> (of_char c :: nat) \<le> 57)"

definition validHeaderFieldByte :: "char \<Rightarrow> bool" where
  "validHeaderFieldByte c =
    (isLower c \<or> isUpper c \<or> isDigit c \<or>
     c \<in> set (''!#$%&*+-.^_|~'' @ [CHR 0x27, CHR 0x60]))"

fun canonLoop :: "bool \<Rightarrow> string \<Rightarrow> string" where
  "canonLoop upper [] = []"
| "canonLoop upper (c # cs) =
    (let c' = (if upper \<and> isLower c then char_of (of_char c - (32 :: nat))
               else if \<not> upper \<and> isUpper c then char_of (of_char c + (32 :: nat))
               else c)
     in c' # canonLoop (c' = CHR ''-'') cs)"

definition CanonicalMIMEHeaderKey :: "string \<Rightarrow> string" where
  "CanonicalMIMEHeaderKey s = (if list_all validHeaderFieldByte s then canonLoop True s else s)"

definition Header_Get :: "Header \<Rightarrow> string \<Rightarrow> string" where
  "Header_Get h key =
    (case h (CanonicalMIMEHeaderKey key) of
       None \<Rightarrow> '''' | Some [] \<Rightarrow> '''' | Some (v # vs) \<Rightarrow> v)"

definition Header_Set :: "string \<Rightarrow> string \<Rightarrow> Header \<Rightarrow> Header" where
  "Header_Set key v h = h(CanonicalMIMEHeaderKey key \<mapsto> [v])"

section \<open>The response wrapper\<close>

text \<open>
  The underlying \<^verbatim>\<open>http.ResponseWriter\<close> is an interface; the embedding records what it
  was sent: its header map, the status codes given to \<^verbatim>\<open>WriteHeader\<close> and the byte slices
  given to \<^verbatim>\<open>Write\<close>, in order. What a \<^verbatim>\<open>Write\<close> returns (how many bytes the sink took, and
  an error or nil) is up to the sink: \<open>answer\<close> gives it from the headers, the status
  codes and the slices the sink was sent before, and the slice at hand. The sink takes
  every call: a sink that panics (as \<^verbatim>\<open>net/http\<close> does on a status code below 100) is not
  modelled. Go's \<^verbatim>\<open>int\<close> is modelled by \<open>int\<close>: status codes and byte counts are taken to
  stay within its range.
\<close>

record ResponseWriter =
  hdr :: Header
  codes :: "int list"
  chunks :: "string list"
  answer :: "Header \<Rightarrow> int list \<Rightarrow> string list \<Rightarrow> string \<Rightarrow> int \<times> error option"

definition rw_WriteHeader :: "int \<Rightarrow> ResponseWriter \<Rightarrow> ResponseWriter" where
  "rw_WriteHeader code rw = rw\<lparr>codes := codes rw @ [code]\<rparr>"

definition rw_answer :: "ResponseWriter \<Rightarrow> string \<Rightarrow> int \<times> error option" where
  "rw_answer rw b = answer rw (hdr rw) (codes rw) (chunks rw) b"

definition rw_Write :: "string \<Rightarrow> ResponseWriter \<Rightarrow> (int \<times> error option) \<times> ResponseWriter" where
  "rw_Write b rw = (rw_answer rw b, rw\<lparr>chunks := chunks rw @ [b]\<rparr>)"

record Response =
  ResponseWriter :: ResponseWriter
  status :: int
  written :: int

definition WriteHeader :: "int \<Rightarrow> Response \<Rightarrow> Response" where
  "WriteHeader code w =
    (let w1 = (if status w = 0 then w\<lparr>status := code\<rparr> else w)
     in w1\<lparr>ResponseWriter := rw_WriteHeader code (ResponseWriter w1)\<rparr>)"

definition Write :: "string \<Rightarrow> Response \<Rightarrow> (int \<times> error option) \<times> Response" where
  "Write b w =
    (let w1 = (if status w = 0 then WriteHeader 200 w else w);
         (res, rw') = rw_Write b (ResponseWriter w1)
     in (res, w1\<lparr>ResponseWriter := rw', written := written w1 + fst res\<rparr>))"

definition Status :: "Response \<Rightarrow> int" where
  "Status w = (if status w = 0 then 200 else status w)"

definition Written :: "Response \<Rightarrow> int" where
  "Written w = written w"

section \<open>Requests\<close>

text \<open>
  The request's \<^verbatim>\<open>context.Context\<close> is a chain of key/value pairs, the newest first;
  \<^verbatim>\<open>Value\<close> returns the newest value stored under a key. The key of the request ID is the
  package's private \<^verbatim>\<open>requestIDKey{}\<close>; every other key is a key of the application.
\<close>

datatype ctx_key = requestIDKey | AppKey string

datatype ctx_value = StringValue string | OtherValue string

type_synonym ctx_chain = "(ctx_key \<times> ctx_value) list"

definition WithValue :: "ctx_chain \<Rightarrow> ctx_key \<Rightarrow> ctx_value \<Rightarrow> ctx_chain" where
  "WithValue parent k v = (k, v) # parent"

definition Value :: "ctx_chain \<Rightarrow> ctx_key \<Rightarrow> ctx_value option" where
  "Value chain k = map_of chain k"

record Request =
  Method :: string
  Path :: string
  RawQuery :: string
  Header :: Header
  Body :: string
  Ctx :: ctx_chain

definition WithContext :: "Request \<Rightarrow> ctx_chain \<Rightarrow> Request" where
  "WithContext r chain = r\<lparr>Ctx := chain\<rparr>"

subsection \<open>The query string\<close>

text \<open>
  \<^verbatim>\<open>r.URL.Query()\<close> parses \<^verbatim>\<open>RawQuery\<close> with \<^verbatim>\<open>url.ParseQuery\<close> and drops the parse error:
  the query is cut at each \<^verbatim>\<open>&\<close>; a segment that holds a semicolon, is empty, or whose key
  or value has a malformed percent escape is skipped; every other segment is cut at its
  first \<^verbatim>\<open>=\<close>, key and value are unescaped (\<^verbatim>\<open>%XX\<close> to the byte, \<^verbatim>\<open>+\<close> to a space) and the
  value is appended to the values of the key. The result is never the nil map.
\<close>

type_synonym Values = "string \<Rightarrow> string list option"

definition ishex :: "char \<Rightarrow> bool" where
  "ishex c =
    (isDigit c \<or> (97 \<le> (of_char c :: nat) \<and> (of_char c :: nat) \<le> 102)
               \<or> (65 \<le> (of_char c :: nat) \<and> (of_char c :: nat) \<le> 70))"

definition unhex :: "char \<Rightarrow> nat" where
  "unhex c =
    (if isDigit c then of_char c - 48
     else if 97 \<le> (of_char c :: nat) \<and> (of_char c :: nat) \<le> 102 then of_char c - 97 + 10
     else if 65 \<le> (of_char c :: nat) \<and> (of_char c :: nat) \<le> 70 then of_char c - 65 + 10
     else 0)"

fun QueryUnescape :: "string \<Rightarrow> string option" where
  "QueryUnescape [] = Some []"
| "QueryUnescape (c # cs) =
    (if c = CHR ''%'' then
       (case cs of
          a # b # rest \<Rightarrow>
            (if ishex a \<and> ishex b
             then map_option ((#) (char_of (unhex a * 16 + unhex b))) (QueryUnescape rest)
             else None)
        | _ \<Rightarrow> None)
     else if c = CHR ''+'' then map_option ((#) CHR '' '') (QueryUnescape cs)
     else map_option ((#) c) (QueryUnescape cs))"

fun segments :: "char \<Rightarrow> string \<Rightarrow> string list" where
  "segments sep [] = [[]]"
| "segments sep (c # cs) =
    (if c = sep then [] # segments sep cs
     else (case segments sep cs of [] \<Rightarrow> [[c]] | s # ss \<Rightarrow> (c # s) # ss))"

definition Cut :: "char \<Rightarrow> string \<Rightarrow> string \<times> string" where
  "Cut sep s = (takeWhile (\<lambda>c. c \<noteq> sep) s, drop 1 (dropWhile (\<lambda>c. c \<noteq> sep) s))"

definition addPair :: "string \<Rightarrow> Values \<Rightarrow> Values" where
  "addPair seg m =
    (if CHR '';'' \<in> set seg \<or> seg = [] then m
     else (case QueryUnescape (fst (Cut CHR ''='' seg)) of
             None \<Rightarrow> m
           | Some k \<Rightarrow>
               (case QueryUnescape (snd (Cut CHR ''='' seg)) of
                  None \<Rightarrow> m
                | Some v \<Rightarrow> m(k \<mapsto> (case m k of None \<Rightarrow> [] | Some vs \<Rightarrow> vs) @ [v]))))"

definition ParseQuery :: "string \<Rightarrow> Values" where
  "ParseQuery q = fold addPair (segments CHR ''&'' q) Map.empty"

definition URL_Query :: "Request \<Rightarrow> Values" where
  "URL_Query r = ParseQuery (RawQuery r)"

section \<open>Logging\<close>

text \<open>
  A \<^verbatim>\<open>*slog.Logger\<close> is the list of attributes \<^verbatim>\<open>With\<close> has scoped it with. Everything the
  loggers emit goes to one list of records, in order: the level, the message, the
  attributes of the logger and those of the call.
\<close>

datatype log_value = StringAttr string | IntAttr int | ErrorAttr "error option"

datatype Logger = SlogLogger (attrs: "(string \<times> log_value) list")

datatype log_level = LevelInfo | LevelError

datatype log_record =
  LogRecord (rec_level: log_level) (rec_msg: string)
    (rec_scoped: "(string \<times> log_value) list") (rec_args: "(string \<times> log_value) list")

definition Logger_With :: "Logger \<Rightarrow> string \<Rightarrow> log_value \<Rightarrow> Logger" where
  "Logger_With l k v = SlogLogger (attrs l @ [(k, v)])"

section \<open>The request context\<close>

text \<open>
  \<^verbatim>\<open>Context\<close> as handlers see it, that is after \<^verbatim>\<open>Reset\<close>: \<^verbatim>\<open>Request\<close> and \<^verbatim>\<open>Response\<close> are
  set, \<^verbatim>\<open>Logger\<close> may be nil, \<^verbatim>\<open>query\<close> is nil until the first access. The back reference
  \<^verbatim>\<open>Mig\<close> is the engine the functions below take as an argument.
\<close>

record Context =
  Request :: Request
  Response :: Response
  Logger :: "Logger option"
  query :: "Values option"

text \<open>
  What a handler runs on: the context it was given and the log. A handler returns an
  error or nil, or panics; the state it leaves behind stands in both cases.
\<close>

record state =
  ctx :: Context
  logs :: "log_record list"

type_synonym Handler = "state \<Rightarrow> error option outcome \<times> state"

type_synonym MiddlewareFunc = "Handler \<Rightarrow> Handler"

type_synonym HTTPErrorHandler = "error \<Rightarrow> state \<Rightarrow> unit outcome \<times> state"

definition Logger_Error :: "Logger \<Rightarrow> string \<Rightarrow> (string \<times> log_value) list \<Rightarrow> state \<Rightarrow> state" where
  "Logger_Error l m kvs s = s\<lparr>logs := logs s @ [LogRecord LevelError m (attrs l) kvs]\<rparr>"

definition Put :: "ctx_key \<Rightarrow> ctx_value \<Rightarrow> Context \<Rightarrow> Context" where
  "Put name v c = c\<lparr>Request := WithContext (Request c) (WithValue (Ctx (Request c)) name v)\<rparr>"

definition Get :: "ctx_key \<Rightarrow> Context \<Rightarrow> ctx_value option" where
  "Get name c = Value (Ctx (Request c)) name"

text \<open>
  \<^verbatim>\<open>QueryParam\<close> and \<^verbatim>\<open>HasQueryParam\<close> fill the cache \<^verbatim>\<open>c.query\<close> when it is nil, then look
  the name up in the cache. They return their result and the context with the cache.
\<close>

definition loadQuery :: "Context \<Rightarrow> Values \<times> Context" where
  "loadQuery c =
    (case query c of
       None \<Rightarrow> (URL_Query (Request c), c\<lparr>query := Some (URL_Query (Request c))\<rparr>)
     | Some q \<Rightarrow> (q, c))"




definition setInternal :: "error \<Rightarrow> HTTPError \<Rightarrow> HTTPError" where
  "setInternal err e = HTTPError (Code e) (Message e) (Some err) (Stack e)"

definition setStack :: "string \<Rightarrow> HTTPError \<Rightarrow> HTTPError" where
  "setStack st e = HTTPError (Code e) (Message e) (Internal e) st"


text \<open>
  \<^verbatim>\<open>c.Response.Header().Set(k, v)\<close>: \<^verbatim>\<open>Header\<close> is the embedded writer's method, so the
  header map is the sink's.
\<close>

definition setHeader :: "string \<Rightarrow> string \<Rightarrow> Response \<Rightarrow> Response" where
  "setHeader k v w =
    w\<lparr>ResponseWriter := (ResponseWriter w)\<lparr>hdr := Header_Set k v (hdr (ResponseWriter w))\<rparr>\<rparr>"

definition Raw :: "string \<Rightarrow> Context \<Rightarrow> error option \<times> Context" where
  "Raw data c = (let (res, w) = Write data (Response c) in (snd res, c\<lparr>Response := w\<rparr>))"

definition RequestIDHeader :: string where
  "RequestIDHeader = ''X-Request-ID''"

definition SetRequestID :: "string \<Rightarrow> Context \<Rightarrow> Context" where
  "SetRequestID rid c =
    (if rid = '''' then c
     else
       (let c1 = c\<lparr>Request :=
                   WithContext (Request c)
                     (WithValue (Ctx (Request c)) requestIDKey (StringValue rid))\<rparr>;
            c2 = c1\<lparr>Response := setHeader RequestIDHeader rid (Response c1)\<rparr>
        in (case Logger c2 of
              None \<Rightarrow> c2
            | Some l \<Rightarrow> c2\<lparr>Logger := Some (Logger_With l ''id'' (StringAttr rid))\<rparr>)))"

definition RequestIDFromContext :: "ctx_chain \<Rightarrow> string" where
  "RequestIDFromContext chain =
    (case Value chain requestIDKey of
       Some (StringValue s) \<Rightarrow> s
     | _ \<Rightarrow> '''')"

definition RequestID :: "Context \<Rightarrow> string" where
  "RequestID c = RequestIDFromContext (Ctx (Request c))"

section \<open>Route groups and the engine\<close>

text \<open>
  A \<^verbatim>\<open>RouteGroup\<close> holds its prefix and its own slice of middleware; \<^verbatim>\<open>Mig\<close> and
  \<^verbatim>\<open>ParentRouter\<close> are references the composition never reads. \<^verbatim>\<open>Group\<close> copies the
  parent's slice into a fresh one and appends the new middleware to the copy.
\<close>

record RouteGroup =
  Prefix :: string
  middlewares :: "MiddlewareFunc list"

definition Group :: "RouteGroup \<Rightarrow> string \<Rightarrow> MiddlewareFunc list \<Rightarrow> RouteGroup" where
  "Group rg prefix mws =
    (let g = \<lparr>Prefix = Prefix rg @ prefix, middlewares = [] @ middlewares rg\<rparr>
     in g\<lparr>middlewares := middlewares g @ mws\<rparr>)"

definition Use :: "MiddlewareFunc list \<Rightarrow> RouteGroup \<Rightarrow> RouteGroup" where
  "Use mws rg = rg\<lparr>middlewares := middlewares rg @ mws\<rparr>"

text \<open>
  The loop of \<^verbatim>\<open>HandleRaw\<close>, \<^verbatim>\<open>for i := len(rg.middlewares) - 1; i >= 0; i--\<close>: \<open>wrapLoop\<close>
  at \<open>Suc i\<close> is the iteration with index \<open>i\<close>; the loop starts at the length of the
  slice.
\<close>

fun wrapLoop :: "MiddlewareFunc list \<Rightarrow> nat \<Rightarrow> Handler \<Rightarrow> Handler" where
  "wrapLoop mws 0 fhandler = fhandler"
| "wrapLoop mws (Suc i) fhandler = wrapLoop mws i ((mws ! i) fhandler)"

definition composed :: "RouteGroup \<Rightarrow> Handler \<Rightarrow> Handler" where
  "composed rg handler = wrapLoop (middlewares rg) (length (middlewares rg)) handler"

text \<open>
  \<^verbatim>\<open>m.ErrorHandler\<close> is the method value \<^verbatim>\<open>m.DefaultErrorHandler\<close> that \<^verbatim>\<open>New\<close> installs, or
  a function of the application. The mux is the list of what was registered with it:
  the pattern and the composed handler that the registered closure gives to \<^verbatim>\<open>Execute\<close>;
  matching requests against patterns, and the mux's refusal of a pattern, are the
  mux's own. The pool is the list of the contexts put back. The engine's logger is not
  nil.
\<close>

datatype ErrorHandlerField = DefaultHandler | Custom HTTPErrorHandler

record Mig =
  RouteGroup :: RouteGroup
  Mux :: "(string \<times> Handler) list"
  ErrorHandler :: ErrorHandlerField
  Mig_Logger :: Logger
  pool :: "Context list"



subsection \<open>Reset\<close>

text \<open>
  \<^verbatim>\<open>pool.Get\<close> gives a context that was put back, or the one \<^verbatim>\<open>pool.New\<close> builds, whose
  \<^verbatim>\<open>Request\<close> and \<^verbatim>\<open>Response\<close> are nil. \<^verbatim>\<open>Reset\<close> allocates the \<^verbatim>\<open>Response\<close> of the latter
  and reuses the \<^verbatim>\<open>Response\<close> of the former. The pool of the embedding hands out the
  context put back last; \<^verbatim>\<open>sync.Pool\<close> may hand out any, or a new one, which \<^verbatim>\<open>Reset\<close>
  makes the same.
\<close>

datatype pooled = FromNew | Reused Context

fun Reset :: "Mig \<Rightarrow> Request \<Rightarrow> ResponseWriter \<Rightarrow> pooled \<Rightarrow> Context" where
  "Reset m r rw FromNew =
    \<lparr>Request = r,
     Response = \<lparr>ResponseWriter = rw, status = 0, written = 0\<rparr>,
     Logger = Some (Mig_Logger m),
     query = None\<rparr>"
| "Reset m r rw (Reused c) =
    c\<lparr>Request := r,
      Response := (Response c)\<lparr>ResponseWriter := rw, status := 0, written := 0\<rparr>,
      query := None,
      Logger := Some (Mig_Logger m)\<rparr>"

definition pool_Get :: "Context list \<Rightarrow> pooled \<times> Context list" where
  "pool_Get p = (case p of [] \<Rightarrow> (FromNew, []) | c # cs \<Rightarrow> (Reused c, cs))"

definition pool_Put :: "Context \<Rightarrow> Context list \<Rightarrow> Context list" where
  "pool_Put c p = c # p"

subsection \<open>The default error handler\<close>

text \<open>
  \<^verbatim>\<open>strings.Contains\<close>, the decimal form of an \<^verbatim>\<open>int\<close>, and \<^verbatim>\<open>http.Error\<close> as Go 1.22 has
  it: two header fields, the status, then the message and a newline.
\<close>

fun Contains :: "string \<Rightarrow> string \<Rightarrow> bool" where
  "Contains [] substr = (substr = [])"
| "Contains (c # cs) substr = (take (length substr) (c # cs) = substr \<or> Contains cs substr)"

function utoa :: "nat \<Rightarrow> string" where
  "utoa n = (if n < 10 then [char_of (48 + n)] else utoa (n div 10) @ [char_of (48 + n mod 10)])"
  by pat_completeness auto
termination
  by (relation "measure (\<lambda>n. n)") auto

declare utoa.simps [simp del]

definition itoa :: "int \<Rightarrow> string" where
  "itoa i = (if i < 0 then CHR ''-'' # utoa (nat (- i)) else utoa (nat i))"

definition http_Error :: "string \<Rightarrow> int \<Rightarrow> Response \<Rightarrow> Response" where
  "http_Error message code w =
    (let w1 = setHeader ''Content-Type'' ''text/plain; charset=utf-8'' w;
         w2 = setHeader ''X-Content-Type-Options'' ''nosniff'' w1;
         w3 = WriteHeader code w2
     in snd (Write (message @ [CHR 0x0A]) w3))"

text \<open>
  The payload \<^verbatim>\<open>map[string]any{"code": e.Code, "message": e.Message}\<close> as
  \<^verbatim>\<open>json.Encoder.Encode\<close> writes it: the keys in order, no spaces, a newline at the end.
  \<open>encodeString\<close> is the encoder's form of a Go string, quotes and escapes included.
\<close>

definition quoted :: "string \<Rightarrow> string" where
  "quoted s = [CHR 0x22] @ s @ [CHR 0x22]"

definition errorPayload :: "(string \<Rightarrow> string) \<Rightarrow> HTTPError \<Rightarrow> string" where
  "errorPayload encodeString e =
    ''{'' @ quoted ''code'' @ '':'' @ itoa (Code e) @ '','' @
    quoted ''message'' @ '':'' @ encodeString (Message e) @ ''}'' @ [CHR 0x0A]"

definition asHTTPError :: "error \<Rightarrow> HTTPError" where
  "asHTTPError err =
    (case errors_As err of
       Some e \<Rightarrow> e
     | None \<Rightarrow> HTTPError 500 (StatusText 500) (Some err) '''')"

definition logError :: "Mig \<Rightarrow> HTTPError \<Rightarrow> state \<Rightarrow> state" where
  "logError m e s =
    (if Stack e \<noteq> '''' then
       Logger_Error (Mig_Logger m) ''panic recovered''
         [(''id'', StringAttr (RequestID (ctx s))),
          (''error'', ErrorAttr (Internal e)),
          (''stack'', StringAttr (Stack e))] s
     else
       Logger_Error (Mig_Logger m) ''request error''
         [(''id'', StringAttr (RequestID (ctx s))),
          (''code'', IntAttr (Code e)),
          (''error'', ErrorAttr (Internal e))] s)"

definition DefaultErrorHandler :: "(string \<Rightarrow> string) \<Rightarrow> Mig \<Rightarrow> HTTPErrorHandler" where
  "DefaultErrorHandler encodeString m err s =
    (let e = asHTTPError err;
         s1 = logError m e s;
         c = ctx s1
     in if Written (Response c) > 0 then (Returned (), s1)
        else if Code e = 204 \<or> Code e = 304 then
          (Returned (), s1\<lparr>ctx := c\<lparr>Response := WriteHeader (Code e) (Response c)\<rparr>\<rparr>)
        else if Contains (Header_Get (Header (Request c)) ''Accept'') ''application/json'' then
          (let w1 = setHeader ''Content-Type'' ''application/json; charset=utf-8'' (Response c);
               w2 = WriteHeader (Code e) w1;
               w3 = snd (Write (errorPayload encodeString e) w2)
           in (Returned (), s1\<lparr>ctx := c\<lparr>Response := w3\<rparr>\<rparr>))
        else
          (Returned (), s1\<lparr>ctx := c\<lparr>Response := http_Error (Message e) (Code e) (Response c)\<rparr>\<rparr>))"

subsection \<open>Execute\<close>

text \<open>
  \<^verbatim>\<open>Execute\<close> takes a context from the pool and resets it, runs the handler and gives
  the error it returns to \<^verbatim>\<open>m.ErrorHandler\<close>. The deferred function recovers a panic of
  the handler or of that call of the error handler: the abort sentinel is raised again,
  anything else becomes a 500 with the recovered error as \<^verbatim>\<open>Internal\<close> and
  \<^verbatim>\<open>debug.Stack()\<close> (the argument \<open>stack\<close>) as \<^verbatim>\<open>Stack\<close>, and goes to \<^verbatim>\<open>m.ErrorHandler\<close>;
  a panic of this last call leaves \<^verbatim>\<open>Execute\<close>. The deferred \<^verbatim>\<open>pool.Put\<close> runs last, on every
  path. The result is how \<^verbatim>\<open>Execute\<close> ends, the sink as the request left it, the engine
  with its pool, and the log.
\<close>

definition callErrorHandler :: "(string \<Rightarrow> string) \<Rightarrow> Mig \<Rightarrow> HTTPErrorHandler" where
  "callErrorHandler encodeString m =
    (case ErrorHandler m of
       DefaultHandler \<Rightarrow> DefaultErrorHandler encodeString m
     | Custom f \<Rightarrow> f)"

definition recovered :: "panic_value \<Rightarrow> error" where
  "recovered rec = (case rec of PanicError recErr \<Rightarrow> recErr | PanicValue v \<Rightarrow> ErrorString v)"

definition onPanic ::
  "(string \<Rightarrow> string) \<Rightarrow> string \<Rightarrow> Mig \<Rightarrow> panic_value \<Rightarrow> state \<Rightarrow> unit outcome \<times> state" where
  "onPanic encodeString stack m rec s =
    (let err = recovered rec
     in if errors_Is_abort err then (Panicked (PanicError err), s)
        else callErrorHandler encodeString m
               (HTTPErr (setStack stack (setInternal err (NewHTTPError 500)))) s)"

definition Execute ::
  "(string \<Rightarrow> string) \<Rightarrow> string \<Rightarrow> Mig \<Rightarrow> Handler \<Rightarrow> ResponseWriter \<Rightarrow> Request \<Rightarrow>
   log_record list \<Rightarrow> unit outcome \<times> ResponseWriter \<times> Mig \<times> log_record list" where
  "Execute encodeString stack m handler rw r lg =
    (let (slot, rest) = pool_Get (pool m);
         cont = Reset m r rw slot;
         (res, s1) = handler \<lparr>ctx = cont, logs = lg\<rparr>;
         (out, s2) =
           (case res of
              Panicked rec \<Rightarrow> onPanic encodeString stack m rec s1
            | Returned None \<Rightarrow> (Returned (), s1)
            | Returned (Some err) \<Rightarrow>
                (case callErrorHandler encodeString m err s1 of
                   (Panicked rec, s') \<Rightarrow> onPanic encodeString stack m rec s'
                 | (Returned u, s') \<Rightarrow> (Returned (), s')))
     in (out, ResponseWriter (Response (ctx s2)), m\<lparr>pool := pool_Put (ctx s2) rest\<rparr>, logs s2))"

section \<open>The older generation\<close>

text \<open>
  The older \<^verbatim>\<open>QueryParam\<close> asks \<^verbatim>\<open>c.query.Get(name)\<close>, the first value or the empty string,
  and returns the default whenever that is empty.
\<close>

definition Values_Get :: "Values \<Rightarrow> string \<Rightarrow> string" where
  "Values_Get q key = (case q key of None \<Rightarrow> '''' | Some [] \<Rightarrow> '''' | Some (v # vs) \<Rightarrow> v)"

definition QueryParam_older :: "string \<Rightarrow> string \<Rightarrow> Context \<Rightarrow> string \<times> Context" where
  "QueryParam_older name def c =
    (let (q, c') = loadQuery c;
         val = Values_Get q name
     in if val \<noteq> '''' then (val, c') else (def, c'))"

text \<open>
  The deferred function of the older \<^verbatim>\<open>Execute\<close>, from the recovered value on. Its
  parameter \<^verbatim>\<open>r\<close> is the request, and it is \<^verbatim>\<open>r\<close> that stands where the recovered value
  was meant: a value that is no error becomes \<^verbatim>\<open>fmt.Errorf("%v", r)\<close>, and on the abort
  sentinel the function panics with \<^verbatim>\<open>r\<close>. Anything else is answered with \<^verbatim>\<open>http.Error\<close>
  on the sink itself and logged; no error handler is called. \<open>fmtv\<close> is what \<^verbatim>\<open>%v\<close> prints
  for the request.
\<close>

definition recover_older ::
  "(Request \<Rightarrow> string) \<Rightarrow> Logger \<Rightarrow> Request \<Rightarrow> panic_value \<Rightarrow> ResponseWriter \<Rightarrow>
   log_record list \<Rightarrow> unit outcome \<times> ResponseWriter \<times> log_record list" where
  "recover_older fmtv logger r rec rw lg =
    (let err = (case rec of PanicError e \<Rightarrow> e | PanicValue v \<Rightarrow> ErrorString (fmtv r))
     in if errors_Is_abort err then (Panicked (PanicValue (fmtv r)), rw, lg)
        else
          (let rw1 = rw\<lparr>hdr := Header_Set ''Content-Type'' ''text/plain; charset=utf-8'' (hdr rw)\<rparr>;
               rw2 = rw1\<lparr>hdr := Header_Set ''X-Content-Type-Options'' ''nosniff'' (hdr rw1)\<rparr>;
               rw3 = rw_WriteHeader 500 rw2;
               rw4 = snd (rw_Write (''Internal Server Error!'' @ [CHR 0x0A]) rw3)
           in (Returned (), rw4,
               lg @ [LogRecord LevelError ''Panic recover'' (attrs logger)
                       [(''err'', ErrorAttr (Some err))]])))"

section \<open>Middleware that marks the response\<close>

text \<open>
  The middleware of the ordering tests: \<open>emit\<close> is \<^verbatim>\<open>c.Raw([]byte(mark))\<close> with the error
  dropped, \<open>testMiddleware\<close> is the helper of \<^verbatim>\<open>mig_test.go\<close>. \<open>observer\<close> is any middleware
  that does something before it calls downstream and something after downstream has
  returned; when downstream panics, the panic passes through it.
\<close>

definition emit :: "string \<Rightarrow> state \<Rightarrow> state" where
  "emit mark s = s\<lparr>ctx := snd (Raw mark (ctx s))\<rparr>"

definition testMiddleware :: "string \<Rightarrow> MiddlewareFunc" where
  "testMiddleware name next s = next (emit (name @ '' > '') s)"

definition observer :: "(state \<Rightarrow> state) \<Rightarrow> (state \<Rightarrow> state) \<Rightarrow> MiddlewareFunc" where
  "observer before after next s =
    (case next (before s) of
       (Returned err, s') \<Rightarrow> (Returned err, after s')
     | (Panicked rec, s') \<Rightarrow> (Panicked rec, s'))"

section \<open>Runs and what they show\<close>

text \<open>
  Several calls of \<^verbatim>\<open>Write\<close> in a row, with what each returned. What a call of \<^verbatim>\<open>Execute\<close>
  shows to the outside: how it ended, the sink and the log; the pool is the engine's own.
\<close>

fun Writes :: "string list \<Rightarrow> Response \<Rightarrow> (int \<times> error option) list \<times> Response" where
  "Writes [] w = ([], w)"
| "Writes (b # bs) w =
    (let (res, w1) = Write b w; (rs, w2) = Writes bs w1 in (res # rs, w2))"

definition observable ::
  "unit outcome \<times> ResponseWriter \<times> Mig \<times> log_record list \<Rightarrow>
   unit outcome \<times> ResponseWriter \<times> log_record list" where
  "observable x = (case x of (out, rw, m, lg) \<Rightarrow> (out, rw, lg))"

section \<open>Example values\<close>

text \<open>
  A sink that takes every byte it is given, the request \<^verbatim>\<open>GET /empty?name=\<close> with
  \<^verbatim>\<open>Accept: application/json\<close>, an engine as \<^verbatim>\<open>New\<close> leaves it, the context of that request
  after \<^verbatim>\<open>Reset\<close>, the same after seven bytes of body, and a \<^verbatim>\<open>404\<close> wrapped with
  \<^verbatim>\<open>fmt.Errorf("load user: %w", ErrNotFound)\<close>.
\<close>

definition exampleSink :: ResponseWriter where
  "exampleSink =
    \<lparr>hdr = Map.empty, codes = [], chunks = [],
     answer = (\<lambda>h cs sent b. (int (length b), None))\<rparr>"

text \<open>
  A sink that takes three bytes of a longer slice and reports a short write, and a
  decoder that knows an empty body and, when unknown fields are disallowed, the field
  \<^verbatim>\<open>email\<close>.
\<close>

definition shortSink :: ResponseWriter where
  "shortSink =
    \<lparr>hdr = Map.empty, codes = [], chunks = [],
     answer = (\<lambda>h cs sent b.
       if length b > 3 then (3, Some (ErrorString ''short write''))
       else (int (length b), None))\<rparr>"


definition exampleRequest :: Request where
  "exampleRequest =
    \<lparr>Method = ''GET'', Path = ''/empty'', RawQuery = ''name='',
     Header = [''Accept'' \<mapsto> [''application/json'']], Body = '''', Ctx = []\<rparr>"

definition exampleMig :: Mig where
  "exampleMig =
    \<lparr>RouteGroup = \<lparr>Prefix = '''', middlewares = []\<rparr>, Mux = [],
     ErrorHandler = DefaultHandler, Mig_Logger = SlogLogger [], pool = []\<rparr>"

definition exampleContext :: Context where
  "exampleContext = Reset exampleMig exampleRequest exampleSink FromNew"

definition exampleState :: state where
  "exampleState = \<lparr>ctx = exampleContext, logs = []\<rparr>"

definition writtenState :: state where
  "writtenState = emit ''partial'' exampleState"


text \<open>
  Handlers of the tests: the final handler of the routing test, a handler that panics
  with a string, one that panics with an error wrapping the abort sentinel, one that
  sets the request ID, one that logs through the logger of its context, and one that
  writes the mark \<^verbatim>\<open>H\<close>.
\<close>

definition finalHandler :: Handler where
  "finalHandler s = (Returned (fst (Raw ''OK'' (ctx s))), s\<lparr>ctx := snd (Raw ''OK'' (ctx s))\<rparr>)"



definition firstHandler :: Handler where
  "firstHandler s = (Returned None, s\<lparr>ctx := SetRequestID ''abc'' (ctx s)\<rparr>)"

definition secondHandler :: Handler where
  "secondHandler s =
    (Returned None,
     (case Logger (ctx s) of None \<Rightarrow> s | Some l \<Rightarrow> Logger_Error l ''second request'' [] s))"


section \<open>Notions the properties are stated with\<close>

text \<open>
  The query cache of a context is coherent when it is nil or holds the parsed query of
  the context's request: \<^verbatim>\<open>Reset\<close> makes it so and \<^verbatim>\<open>Put\<close>, \<^verbatim>\<open>SetRequestID\<close>,
  \<^verbatim>\<open>QueryParam\<close> and \<^verbatim>\<open>HasQueryParam\<close> keep it so.
\<close>

definition queryCoherent :: "Context \<Rightarrow> bool" where
  "queryCoherent c = (case query c of None \<Rightarrow> True | Some q \<Rightarrow> q = URL_Query (Request c))"






section \<open>Properties of the response wrapper\<close>

lemma Reset_eq:
  "Reset m r rw slot =
    \<lparr>Request = r, Response = \<lparr>ResponseWriter = rw, status = 0, written = 0\<rparr>,
     Logger = Some (Mig_Logger m), query = None\<rparr>"
  by (cases slot) simp_all

lemma Write_fresh:
  "status w = 0 \<Longrightarrow>
   Write b w =
     (rw_answer (rw_WriteHeader 200 (ResponseWriter w)) b,
      w\<lparr>status := 200,
        ResponseWriter := (ResponseWriter w)
          \<lparr>codes := codes (ResponseWriter w) @ [200],
           chunks := chunks (ResponseWriter w) @ [b]\<rparr>,
        written := written w + fst (rw_answer (rw_WriteHeader 200 (ResponseWriter w)) b)\<rparr>)"
  by (simp add: Write_def WriteHeader_def rw_Write_def rw_WriteHeader_def Let_def)

lemma Write_later:
  "status w \<noteq> 0 \<Longrightarrow>
   Write b w =
     (rw_answer (ResponseWriter w) b,
      w\<lparr>ResponseWriter := (ResponseWriter w)\<lparr>chunks := chunks (ResponseWriter w) @ [b]\<rparr>,
        written := written w + fst (rw_answer (ResponseWriter w) b)\<rparr>)"
  by (simp add: Write_def rw_Write_def Let_def)

lemma setHeader_fields:
  "status (setHeader k v w) = status w"
  "written (setHeader k v w) = written w"
  "codes (ResponseWriter (setHeader k v w)) = codes (ResponseWriter w)"
  "chunks (ResponseWriter (setHeader k v w)) = chunks (ResponseWriter w)"
  "answer (ResponseWriter (setHeader k v w)) = answer (ResponseWriter w)"
  "hdr (ResponseWriter (setHeader k v w)) = Header_Set k v (hdr (ResponseWriter w))"
  by (simp_all add: setHeader_def)

lemma WriteHeader_fields:
  "status (WriteHeader code w) = (if status w = 0 then code else status w)"
  "written (WriteHeader code w) = written w"
  "codes (ResponseWriter (WriteHeader code w)) = codes (ResponseWriter w) @ [code]"
  "chunks (ResponseWriter (WriteHeader code w)) = chunks (ResponseWriter w)"
  "answer (ResponseWriter (WriteHeader code w)) = answer (ResponseWriter w)"
  "hdr (ResponseWriter (WriteHeader code w)) = hdr (ResponseWriter w)"
  by (simp_all add: WriteHeader_def rw_WriteHeader_def Let_def)

lemma Write_fields:
  "fst (Write b w) =
     rw_answer (if status w = 0 then rw_WriteHeader 200 (ResponseWriter w) else ResponseWriter w) b"
  "status (snd (Write b w)) = (if status w = 0 then 200 else status w)"
  "written (snd (Write b w)) = written w + fst (fst (Write b w))"
  "codes (ResponseWriter (snd (Write b w))) =
     codes (ResponseWriter w) @ (if status w = 0 then [200] else [])"
  "chunks (ResponseWriter (snd (Write b w))) = chunks (ResponseWriter w) @ [b]"
  "answer (ResponseWriter (snd (Write b w))) = answer (ResponseWriter w)"
  "hdr (ResponseWriter (snd (Write b w))) = hdr (ResponseWriter w)"
  by (cases "status w = 0"; simp add: Write_fresh Write_later)+

lemma http_Error_fields:
  "chunks (ResponseWriter (http_Error txt code w)) = chunks (ResponseWriter w) @ [txt @ [CHR 0x0A]]"
  "codes (ResponseWriter (http_Error txt code w)) =
     codes (ResponseWriter w) @ (if status w = 0 \<and> code = 0 then [0, 200] else [code])"
  by (simp_all add: http_Error_def Let_def Write_fields WriteHeader_fields setHeader_fields)

lemmas response_fields = setHeader_fields WriteHeader_fields Write_fields http_Error_fields

lemma Write_written: "written (snd (Write b w)) = written w + fst (fst (Write b w))"
  by (rule Write_fields)

lemma Write_Status: "status w = 0 \<or> status w = 200 \<Longrightarrow> status (snd (Write b w)) = 200"
  by (auto simp add: Write_fields)

lemma Writes_written:
  "written (snd (Writes bs w)) = written w + sum_list (map fst (fst (Writes bs w)))"
proof (induction bs arbitrary: w)
  case Nil
  show ?case by simp
next
  case (Cons b bs)
  obtain res w1 where W: "Write b w = (res, w1)" by (cases "Write b w")
  obtain rs w2 where Ws: "Writes bs w1 = (rs, w2)" by (cases "Writes bs w1")
  from Write_written [of b w] W have "written w1 = written w + fst res" by simp
  moreover from Cons.IH [of w1] Ws have "written w2 = written w1 + sum_list (map fst rs)" by simp
  ultimately show ?case using W Ws by simp
qed

lemma Writes_Status:
  "status w = 0 \<or> status w = 200 \<Longrightarrow> Status (snd (Writes bs w)) = 200"
proof (induction bs arbitrary: w)
  case Nil
  then show ?case by (auto simp: Status_def)
next
  case (Cons b bs)
  obtain res w1 where W: "Write b w = (res, w1)" by (cases "Write b w")
  obtain rs w2 where Ws: "Writes bs w1 = (rs, w2)" by (cases "Writes bs w1")
  from Write_Status [OF Cons.prems, of b] W have "status w1 = 200" by simp
  with Cons.IH [of w1] Ws have "Status w2 = 200" by simp
  then show ?case using W Ws by simp
qed

text \<open>
  C8. On a \<^verbatim>\<open>Response\<close> that \<^verbatim>\<open>Reset\<close> has just prepared, a \<^verbatim>\<open>Write\<close> before any
  \<^verbatim>\<open>WriteHeader\<close> returns what the sink returned (count and error), records the status
  200 and sends it to the sink ahead of the bytes; afterwards \<^verbatim>\<open>Status()\<close> is 200 and
  \<^verbatim>\<open>Written()\<close> is the count the sink returned, not the length of the slice. After any
  number of such writes \<^verbatim>\<open>Status()\<close> is 200 and \<^verbatim>\<open>Written()\<close> is the sum of the counts the
  sink returned.
\<close>

theorem Write_before_WriteHeader:
  fixes m r rw slot b bs
  defines "w0 \<equiv> Response (Reset m r rw slot)"
  shows "fst (Write b w0) = answer rw (hdr rw) (codes rw @ [200]) (chunks rw) b
     \<and> status (snd (Write b w0)) = 200
     \<and> Status (snd (Write b w0)) = 200
     \<and> Written (snd (Write b w0)) = fst (fst (Write b w0))
     \<and> codes (ResponseWriter (snd (Write b w0))) = codes rw @ [200]
     \<and> chunks (ResponseWriter (snd (Write b w0))) = chunks rw @ [b]
     \<and> Status (snd (Writes bs w0)) = 200
     \<and> Written (snd (Writes bs w0)) = sum_list (map fst (fst (Writes bs w0)))"
proof -
  have w0: "w0 = \<lparr>ResponseWriter = rw, status = 0, written = 0\<rparr>"
    by (simp add: w0_def Reset_eq)
  have s0: "status w0 = 0" and n0: "written w0 = 0" by (simp_all add: w0)
  have "Written (snd (Writes bs w0)) = sum_list (map fst (fst (Writes bs w0)))"
    using Writes_written [of bs w0] n0 by (simp add: Written_def)
  moreover have "Status (snd (Writes bs w0)) = 200"
    by (rule Writes_Status) (simp add: s0)
  moreover have W: "Write b w0 =
      (answer rw (hdr rw) (codes rw @ [200]) (chunks rw) b,
       \<lparr>ResponseWriter = rw\<lparr>codes := codes rw @ [200], chunks := chunks rw @ [b]\<rparr>,
        status = 200, written = fst (answer rw (hdr rw) (codes rw @ [200]) (chunks rw) b)\<rparr>)"
    unfolding w0 by (simp add: Write_fresh rw_answer_def rw_WriteHeader_def)
  ultimately show ?thesis
    by (simp add: W Status_def Written_def)
qed

theorem Write_before_WriteHeader_witness:
  "fst (Write ''hello'' (Response (Reset exampleMig exampleRequest shortSink FromNew))) =
     (3, Some (ErrorString ''short write''))
   \<and> Written (snd (Write ''hello'' (Response (Reset exampleMig exampleRequest shortSink FromNew)))) = 3
   \<and> Status (snd (Write ''hello'' (Response (Reset exampleMig exampleRequest shortSink FromNew)))) = 200
   \<and> codes (ResponseWriter
        (snd (Write ''hello'' (Response (Reset exampleMig exampleRequest shortSink FromNew))))) = [200]"
  using Write_before_WriteHeader [of "''hello''" exampleMig exampleRequest shortSink FromNew]
  by (simp add: shortSink_def)

section \<open>Properties of the context\<close>

lemma exampleContext_eq:
  "exampleContext =
    \<lparr>Request = exampleRequest,
     Response = \<lparr>ResponseWriter = exampleSink, status = 0, written = 0\<rparr>,
     Logger = Some (SlogLogger []), query = None\<rparr>"
  by (simp add: exampleContext_def exampleMig_def)

lemma exampleContext_RequestID: "RequestID exampleContext = ''''"
  by (simp add: exampleContext_eq exampleRequest_def RequestID_def RequestIDFromContext_def
      Value_def)

lemma writtenState_eq:
  "writtenState =
    \<lparr>ctx = \<lparr>Request = exampleRequest,
       Response = \<lparr>ResponseWriter = exampleSink\<lparr>codes := [200], chunks := [''partial'']\<rparr>,
                   status = 200, written = 7\<rparr>,
       Logger = Some (SlogLogger []), query = None\<rparr>,
     logs = []\<rparr>"
  by (simp add: writtenState_def exampleState_def emit_def Raw_def exampleContext_eq Write_fresh
      exampleSink_def rw_answer_def rw_WriteHeader_def)

text \<open>
  C10. \<^verbatim>\<open>SetRequestID("")\<close> changes nothing: the context is the one it was given, so the
  request and the context attached to it, the response with the headers of its sink, and
  the logger are as before, \<^verbatim>\<open>RequestID()\<close> returns what it returned before, and when
  that was the empty string it still is.
\<close>

theorem SetRequestID_empty_noop:
  "SetRequestID '''' c = c
   \<and> Request (SetRequestID '''' c) = Request c
   \<and> Response (SetRequestID '''' c) = Response c
   \<and> hdr (ResponseWriter (Response (SetRequestID '''' c))) = hdr (ResponseWriter (Response c))
   \<and> Logger (SetRequestID '''' c) = Logger c
   \<and> RequestID (SetRequestID '''' c) = RequestID c
   \<and> (RequestID c = '''' \<longrightarrow> RequestID (SetRequestID '''' c) = '''')"
  by (simp add: SetRequestID_def)

theorem SetRequestID_empty_noop_witness:
  "RequestID exampleContext = ''''
   \<and> SetRequestID '''' exampleContext = exampleContext
   \<and> hdr (ResponseWriter (Response (SetRequestID '''' exampleContext))) RequestIDHeader = None
   \<and> RequestID (SetRequestID '''' exampleContext) = ''''"
proof -
  have "hdr (ResponseWriter (Response exampleContext)) RequestIDHeader = None"
    by (simp add: exampleContext_eq exampleSink_def)
  with SetRequestID_empty_noop [of exampleContext] exampleContext_RequestID
  show ?thesis by simp
qed



section \<open>Properties of the default error handler\<close>

lemma ctx_logError: "ctx (logError m e s) = ctx s"
  by (simp add: logError_def Logger_Error_def)

lemma logs_logError: "\<exists>entry. logs (logError m e s) = logs s @ [entry]"
  by (simp add: logError_def Logger_Error_def)








text \<open>
  C5. When \<^verbatim>\<open>Written()\<close> of the response is positive, the default error handler appends
  its one log record and returns: the context, and with it the response (status, count,
  and everything the sink was sent), is as it was.
\<close>

theorem DefaultErrorHandler_already_written:
  assumes "Written (Response (ctx s)) > 0"
  shows "DefaultErrorHandler enc m err s = (Returned (), logError m (asHTTPError err) s)
     \<and> ctx (snd (DefaultErrorHandler enc m err s)) = ctx s
     \<and> Response (ctx (snd (DefaultErrorHandler enc m err s))) = Response (ctx s)
     \<and> length (logs (snd (DefaultErrorHandler enc m err s))) = Suc (length (logs s))"
proof -
  have "DefaultErrorHandler enc m err s = (Returned (), logError m (asHTTPError err) s)"
    using assms by (simp add: DefaultErrorHandler_def Let_def ctx_logError)
  moreover have "length (logs (logError m (asHTTPError err) s)) = Suc (length (logs s))"
    using logs_logError [of m "asHTTPError err" s] by auto
  ultimately show ?thesis by (simp add: ctx_logError)
qed

theorem DefaultErrorHandler_already_written_witness:
  "Written (Response (ctx writtenState)) > 0
   \<and> Response (ctx (snd (DefaultErrorHandler quoted exampleMig (ErrorString ''late'') writtenState)))
       = Response (ctx writtenState)
   \<and> chunks (ResponseWriter (Response (ctx
         (snd (DefaultErrorHandler quoted exampleMig (ErrorString ''late'') writtenState)))))
       = [''partial'']"
proof -
  have W: "Written (Response (ctx writtenState)) > 0"
    by (simp add: writtenState_eq Written_def)
  have C: "chunks (ResponseWriter (Response (ctx writtenState))) = [''partial'']"
    by (simp add: writtenState_eq exampleSink_def)
  from DefaultErrorHandler_already_written [OF W, of quoted exampleMig "ErrorString ''late''"]
  have "Response (ctx (snd (DefaultErrorHandler quoted exampleMig (ErrorString ''late'') writtenState)))
       = Response (ctx writtenState)"
    by blast
  with W C show ?thesis by simp
qed







section \<open>Properties of Reset and Execute\<close>

lemma logError_pool: "logError (m\<lparr>pool := p\<rparr>) = logError m"
  by (simp add: logError_def fun_eq_iff)

lemma DefaultErrorHandler_pool:
  "DefaultErrorHandler enc (m\<lparr>pool := p\<rparr>) = DefaultErrorHandler enc m"
  by (simp add: DefaultErrorHandler_def logError_pool fun_eq_iff)

lemma callErrorHandler_pool: "callErrorHandler enc (m\<lparr>pool := p\<rparr>) = callErrorHandler enc m"
  by (simp add: callErrorHandler_def DefaultErrorHandler_pool split: ErrorHandlerField.splits)

lemma onPanic_pool: "onPanic enc st (m\<lparr>pool := p\<rparr>) = onPanic enc st m"
  by (simp add: onPanic_def callErrorHandler_pool fun_eq_iff Let_def)

lemma Execute_observable:
  "observable (Execute enc st m handler rw r lg) =
   (case handler \<lparr>ctx = Reset m r rw FromNew, logs = lg\<rparr> of (res, s1) \<Rightarrow>
     (case (case res of
              Panicked rec \<Rightarrow> onPanic enc st m rec s1
            | Returned None \<Rightarrow> (Returned (), s1)
            | Returned (Some err) \<Rightarrow>
                (case callErrorHandler enc m err s1 of
                   (Panicked rec, s') \<Rightarrow> onPanic enc st m rec s'
                 | (Returned u, s') \<Rightarrow> (Returned (), s')))
      of (out, s2) \<Rightarrow> (out, ResponseWriter (Response (ctx s2)), logs s2)))"
  by (simp add: Execute_def observable_def Let_def Reset_eq split: prod.splits)

lemma Execute_pool_irrelevant:
  "observable (Execute enc st (m\<lparr>pool := p\<rparr>) handler rw r lg) =
   observable (Execute enc st m handler rw r lg)"
  unfolding Execute_observable onPanic_pool callErrorHandler_pool
  by (simp add: Reset_eq)

lemma Execute_unfold:
  "Execute enc stack m handler rw r lg =
   (case handler \<lparr>ctx = Reset m r rw FromNew, logs = lg\<rparr> of (res, s1) \<Rightarrow>
     (case (case res of
              Panicked rec \<Rightarrow> onPanic enc stack m rec s1
            | Returned None \<Rightarrow> (Returned (), s1)
            | Returned (Some err) \<Rightarrow>
                (case callErrorHandler enc m err s1 of
                   (Panicked rec, s') \<Rightarrow> onPanic enc stack m rec s'
                 | (Returned u, s') \<Rightarrow> (Returned (), s')))
      of (out, s2) \<Rightarrow>
        (out, ResponseWriter (Response (ctx s2)),
         m\<lparr>pool := pool_Put (ctx s2) (snd (pool_Get (pool m)))\<rparr>, logs s2)))"
  by (simp add: Execute_def Let_def Reset_eq split: prod.splits)

lemma Execute_engine:
  "fst (snd (snd (Execute enc st m handler rw r lg))) =
     m\<lparr>pool := pool (fst (snd (snd (Execute enc st m handler rw r lg))))\<rparr>"
  by (simp add: Execute_def Let_def split: prod.splits)

text \<open>
  C9. Whatever the pooled context held, \<^verbatim>\<open>Reset\<close> leaves the new request, the new sink
  under a response with status 0 and count 0, no cached query and the engine's logger: a
  reused context is after \<^verbatim>\<open>Reset\<close> what a new one is. So what a request shows (how
  \<^verbatim>\<open>Execute\<close> ends, the sink, the log) does not depend on what is in the pool, and a
  request served after another one, with the pool that one left, shows what it would
  have shown without it.
\<close>

theorem Reset_erases_previous_request:
  "Reset m r rw slot =
     \<lparr>Request = r, Response = \<lparr>ResponseWriter = rw, status = 0, written = 0\<rparr>,
      Logger = Some (Mig_Logger m), query = None\<rparr>
   \<and> Reset m r rw (Reused c) = Reset m r rw FromNew
   \<and> observable (Execute enc st (m\<lparr>pool := p\<rparr>) handler rw r lg) =
     observable (Execute enc st (m\<lparr>pool := []\<rparr>) handler rw r lg)
   \<and> observable
       (Execute enc st (fst (snd (snd (Execute enc st1 m handler1 rw1 r1 lg1)))) handler rw r lg) =
     observable (Execute enc st m handler rw r lg)"
proof -
  have "observable
       (Execute enc st (fst (snd (snd (Execute enc st1 m handler1 rw1 r1 lg1)))) handler rw r lg) =
     observable (Execute enc st m handler rw r lg)"
  proof -
    obtain p where "fst (snd (snd (Execute enc st1 m handler1 rw1 r1 lg1))) = m\<lparr>pool := p\<rparr>"
      using Execute_engine by blast
    then show ?thesis by (simp add: Execute_pool_irrelevant)
  qed
  then show ?thesis
    by (simp add: Reset_eq Execute_pool_irrelevant)
qed

text \<open>
  The first request scopes the logger of its context with the ID \<^verbatim>\<open>abc\<close>, and the
  context goes to the pool so; the record the second request logs through the logger
  of its context carries no such field.
\<close>

theorem Reset_erases_previous_request_witness:
  "map Logger (pool (fst (snd (snd
      (Execute quoted '''' exampleMig firstHandler exampleSink exampleRequest [])))))
     = [Some (SlogLogger [(''id'', StringAttr ''abc'')])]
   \<and> snd (snd (observable
      (Execute quoted ''''
         (fst (snd (snd (Execute quoted '''' exampleMig firstHandler exampleSink exampleRequest []))))
         secondHandler exampleSink exampleRequest [])))
     = [LogRecord LevelError ''second request'' [] []]"
proof -
  have 1: "map Logger (pool (fst (snd (snd
      (Execute quoted '''' exampleMig firstHandler exampleSink exampleRequest [])))))
     = [Some (SlogLogger [(''id'', StringAttr ''abc'')])]"
    by (simp add: Execute_unfold firstHandler_def SetRequestID_def Let_def Reset_eq
        pool_Put_def pool_Get_def exampleMig_def Logger_With_def)
  from Reset_erases_previous_request
    [where enc = quoted and st = "''''" and ?st1.0 = "''''" and m = exampleMig
       and ?handler1.0 = firstHandler and ?rw1.0 = exampleSink and ?r1.0 = exampleRequest
       and ?lg1.0 = "[]" and handler = secondHandler and rw = exampleSink and r = exampleRequest
       and lg = "[]"]
  have "observable
      (Execute quoted ''''
         (fst (snd (snd (Execute quoted '''' exampleMig firstHandler exampleSink exampleRequest []))))
         secondHandler exampleSink exampleRequest []) =
     observable (Execute quoted '''' exampleMig secondHandler exampleSink exampleRequest [])"
    by blast
  moreover have "snd (snd (observable
      (Execute quoted '''' exampleMig secondHandler exampleSink exampleRequest [])))
     = [LogRecord LevelError ''second request'' [] []]"
    by (simp add: Execute_observable secondHandler_def Reset_eq Logger_Error_def exampleMig_def)
  ultimately show ?thesis using 1 by simp
qed







text \<open>
  The older recovery differs: on the abort sentinel it panics with the request, not
  with the sentinel, and it never builds an \<^verbatim>\<open>HTTPError\<close>.
\<close>

lemma recover_older_abort:
  "recover_older fmtv logger r (PanicError ErrAbortHandler) rw lg =
     (Panicked (PanicValue (fmtv r)), rw, lg)"
  by (simp add: recover_older_def)

section \<open>Properties of the query parameters\<close>








lemma Put_queryCoherent: "queryCoherent c \<Longrightarrow> queryCoherent (Put k v c)"
  by (simp add: queryCoherent_def Put_def WithContext_def URL_Query_def split: option.splits)

lemma SetRequestID_queryCoherent: "queryCoherent c \<Longrightarrow> queryCoherent (SetRequestID rid c)"
  by (simp add: queryCoherent_def SetRequestID_def WithContext_def URL_Query_def Let_def
      split: option.splits)

lemma example_query_name: "URL_Query exampleRequest ''name'' = Some ['''']"
  unfolding URL_Query_def exampleRequest_def by (simp, code_simp)


lemma ParseQuery_standard_params:
  "ParseQuery ''name=mig&version=1'' ''name'' = Some [''mig'']"
  "ParseQuery ''name=mig&version=1'' ''missing'' = None"
  by code_simp+

lemma ParseQuery_skips_and_unescapes:
  "ParseQuery ''a=1&b=%41+b&a=2;x&a=3&&c&d=%zz'' ''a'' = Some [''1'', ''3'']"
  "ParseQuery ''a=1&b=%41+b&a=2;x&a=3&&c&d=%zz'' ''b'' = Some [''A b'']"
  "ParseQuery ''a=1&b=%41+b&a=2;x&a=3&&c&d=%zz'' ''c'' = Some ['''']"
  "ParseQuery ''a=1&b=%41+b&a=2;x&a=3&&c&d=%zz'' ''d'' = None"
  by code_simp+



text \<open>
  The older \<^verbatim>\<open>QueryParam\<close> differs on the same request: for \<^verbatim>\<open>?name=\<close> it returns the
  default.
\<close>

lemma QueryParam_older_empty_value:
  "fst (QueryParam_older ''name'' ''default'' exampleContext) = ''default''"
  by (simp add: QueryParam_older_def loadQuery_def exampleContext_eq Values_Get_def
      example_query_name)

section \<open>Properties of the middleware chain\<close>

lemma wrapLoop_take:
  "i \<le> length mws \<Longrightarrow> wrapLoop mws i h = foldr (\<lambda>mw h. mw h) (take i mws) h"
proof (induction i arbitrary: h)
  case 0
  show ?case by simp
next
  case (Suc i)
  then have i: "i < length mws" by simp
  have "wrapLoop mws (Suc i) h = wrapLoop mws i ((mws ! i) h)" by simp
  also have "\<dots> = foldr (\<lambda>mw h. mw h) (take i mws) ((mws ! i) h)"
    using Suc.IH i by simp
  also have "\<dots> = foldr (\<lambda>mw h. mw h) (take i mws @ [mws ! i]) h" by simp
  also have "take i mws @ [mws ! i] = take (Suc i) mws"
    using i by (simp add: take_Suc_conv_app_nth)
  finally show ?case .
qed

lemma composed_foldr: "composed rg h = foldr (\<lambda>mw h. mw h) (middlewares rg) h"
  by (simp add: composed_def wrapLoop_take)

lemma Group_fields:
  "middlewares (Group rg prefix mws) = middlewares rg @ mws"
  "Prefix (Group rg prefix mws) = Prefix rg @ prefix"
  by (simp_all add: Group_def Let_def)




lemma Raw_Response: "Response (snd (Raw data c)) = snd (Write data (Response c))"
  by (simp add: Raw_def split: prod.splits)

lemma emit_chunks:
  "chunks (ResponseWriter (Response (ctx (emit mark s)))) =
   chunks (ResponseWriter (Response (ctx s))) @ [mark]"
  by (simp add: emit_def Raw_Response response_fields)

lemma finalHandler_chunks:
  "chunks (ResponseWriter (Response (ctx (snd (finalHandler s))))) =
   chunks (ResponseWriter (Response (ctx s))) @ [''OK'']"
  by (simp add: finalHandler_def Raw_Response response_fields)

lemma testMiddleware_observer: "testMiddleware name = observer (emit (name @ '' > '')) (\<lambda>s. s)"
proof (intro ext)
  fix downstream s
  show "testMiddleware name downstream s =
        observer (emit (name @ '' > '')) (\<lambda>s. s) downstream s"
    by (cases "downstream (emit (name @ '' > '') s)")
       (simp add: testMiddleware_def observer_def split: outcome.splits)
qed

text \<open>
  The routing test of the repository: \<^verbatim>\<open>M_ROOT\<close> on the root, \<^verbatim>\<open>M_API\<close> on the group
  \<^verbatim>\<open>/api\<close>, the route registered on its child \<^verbatim>\<open>/v1\<close>.
\<close>

lemma routing_test_body:
  "chunks (ResponseWriter (Response (ctx (snd
     (composed
        (Group (Group (Use [testMiddleware ''M_ROOT''] \<lparr>Prefix = '''', middlewares = []\<rparr>)
                  ''/api'' [testMiddleware ''M_API''])
           ''/v1'' [])
        finalHandler exampleState))))) =
   [''M_ROOT > '', ''M_API > '', ''OK'']"
  by (simp add: composed_foldr Group_fields Use_def testMiddleware_def finalHandler_chunks
      emit_chunks exampleState_def exampleContext_eq exampleSink_def)



end
